theory Spec2Isabelle
  imports Main
begin

section \<open>Python values\<close>

text \<open>
  The program is a Streamlit script (\<^verbatim>\<open>weatherapp.py\<close>) that fetches a JSON weather report,
  formats one sentence from it and asks a hosted model for attractions. Its data are
  Python values as \<^verbatim>\<open>json.loads\<close> produces them, and Python text.

  A Python \<^verbatim>\<open>str\<close> is a sequence of Unicode code points, so text is a list of code
  points here; \<open>lit\<close> turns an ASCII literal of the source into such a list, and the few
  non-ASCII characters of the source are given by their code points.
\<close>

type_synonym pystr = "nat list"

definition lit :: "string \<Rightarrow> pystr" where
  "lit s = map of_char s"

definition degree_sign :: pystr where
  "degree_sign = [0xB0]"

definition em_dash :: pystr where
  "em_dash = [0x2014]"

definition warning_sign :: pystr where
  "warning_sign = [0x26A0, 0xFE0F]"

text \<open>
  The code never computes with a float, it only prints them. A finite float is therefore
  named by the decimal that \<^verbatim>\<open>repr\<close> prints for it: a sign (\<open>True\<close> for negative), a
  coefficient and a power of ten, so that 22.5 is \<open>Finite False 225 (-1)\<close>.
\<close>

datatype pyfloat = Finite bool nat int | Infinite bool | NaN

datatype pyval =
    PNone
  | PBool bool
  | PInt int
  | PFloat pyfloat
  | PStr pystr
  | PList "pyval list"
  | PDict "(pystr \<times> pyval) list"

text \<open>
  A dictionary keeps its items in insertion order; a lookup takes the first item with
  the key (a parsed JSON object has each key once).
\<close>

datatype exn_class = KeyError | TypeError | AttributeError | External

text \<open>
  An exception is its class and the text \<^verbatim>\<open>str(e)\<close> gives for it. The texts of the
  exceptions Python itself raises are those of CPython 3.11 and 3.12; \<open>External\<close> is
  any exception raised by a library.
\<close>

datatype exn = Exn exn_class pystr

fun str_exn :: "exn \<Rightarrow> pystr" where
  "str_exn (Exn c m) = m"

fun type_name :: "pyval \<Rightarrow> pystr" where
  "type_name PNone = lit ''NoneType''"
| "type_name (PBool b) = lit ''bool''"
| "type_name (PInt i) = lit ''int''"
| "type_name (PFloat f) = lit ''float''"
| "type_name (PStr s) = lit ''str''"
| "type_name (PList xs) = lit ''list''"
| "type_name (PDict kvs) = lit ''dict''"

text \<open>Truth value of a Python object, as \<^verbatim>\<open>not x\<close> and \<^verbatim>\<open>x or y\<close> test it.\<close>

fun truthy :: "pyval \<Rightarrow> bool" where
  "truthy PNone = False"
| "truthy (PBool b) = b"
| "truthy (PInt i) = (i \<noteq> 0)"
| "truthy (PFloat (Finite s c e)) = (c \<noteq> 0)"
| "truthy (PFloat f) = True"
| "truthy (PStr s) = (s \<noteq> [])"
| "truthy (PList xs) = (xs \<noteq> [])"
| "truthy (PDict kvs) = (kvs \<noteq> [])"

fun is_prefix :: "pystr \<Rightarrow> pystr \<Rightarrow> bool" where
  "is_prefix [] s = True"
| "is_prefix (c # k) [] = False"
| "is_prefix (c # k) (d # s) = (c = d \<and> is_prefix k s)"

fun occurs_in :: "pystr \<Rightarrow> pystr \<Rightarrow> bool" where
  "occurs_in k [] = (k = [])"
| "occurs_in k (d # s) = (is_prefix k (d # s) \<or> occurs_in k s)"

text \<open>
  \<^verbatim>\<open>k in v\<close> for a text key \<open>k\<close>: key membership in a dict, element membership in a
  list, substring test in a text, and a TypeError for every other value.
\<close>

fun contains :: "pystr \<Rightarrow> pyval \<Rightarrow> exn + bool" where
  "contains k (PDict kvs) = Inr (map_of kvs k \<noteq> None)"
| "contains k (PList xs) = Inr (PStr k \<in> set xs)"
| "contains k (PStr s) = Inr (occurs_in k s)"
| "contains k v =
     Inl (Exn TypeError (lit ''argument of type '' @ [39] @ type_name v @ [39] @ lit '' is not iterable''))"

text \<open>\<^verbatim>\<open>v[k]\<close> for a text key \<open>k\<close>.\<close>

fun getitem :: "pyval \<Rightarrow> pystr \<Rightarrow> exn + pyval" where
  "getitem (PDict kvs) k =
     (case map_of kvs k of None \<Rightarrow> Inl (Exn KeyError ([39] @ k @ [39])) | Some v \<Rightarrow> Inr v)"
| "getitem (PList xs) k =
     Inl (Exn TypeError (lit ''list indices must be integers or slices, not str''))"
| "getitem (PStr s) k =
     Inl (Exn TypeError (lit ''string indices must be integers, not '' @ [39] @ lit ''str'' @ [39]))"
| "getitem v k =
     Inl (Exn TypeError ([39] @ type_name v @ [39] @ lit '' object is not subscriptable''))"

text \<open>\<^verbatim>\<open>v.get(k, d)\<close>: only a dict has the method.\<close>

fun get_default :: "pyval \<Rightarrow> pystr \<Rightarrow> pyval \<Rightarrow> exn + pyval" where
  "get_default (PDict kvs) k d = Inr (case map_of kvs k of None \<Rightarrow> d | Some v \<Rightarrow> v)"
| "get_default v k d =
     Inl (Exn AttributeError
       ([39] @ type_name v @ [39] @ lit '' object has no attribute '' @ [39] @ lit ''get'' @ [39]))"

subsection \<open>Printing values\<close>

fun dec :: "nat \<Rightarrow> pystr" where
  "dec n = (if n < 10 then [48 + n] else dec (n div 10) @ [48 + n mod 10])"

declare dec.simps [simp del]

definition str_int :: "int \<Rightarrow> pystr" where
  "str_int i = (if i < 0 then lit ''-'' @ dec (nat (- i)) else dec (nat i))"

text \<open>
  \<^verbatim>\<open>str\<close> of a float is its shortest round-trip decimal: in positional notation when
  the decimal point falls within \<open>-4 < p \<le> 16\<close> of the first digit, else with an exponent
  of at least two digits.
\<close>

definition float_digits :: "nat \<Rightarrow> pystr" where
  "float_digits c = rev (dropWhile (\<lambda>d. d = 48) (rev (dec c)))"

definition str_finite :: "nat \<Rightarrow> int \<Rightarrow> pystr" where
  "str_finite c e =
     (if c = 0 then lit ''0.0''
      else
        let ds = float_digits c;
            n = length ds;
            p = int (length (dec c)) + e
        in if - 4 < p \<and> p \<le> 16 then
             (if p \<le> 0 then lit ''0.'' @ replicate (nat (- p)) 48 @ ds
              else if n \<le> nat p then ds @ replicate (nat p - n) 48 @ lit ''.0''
              else take (nat p) ds @ lit ''.'' @ drop (nat p) ds)
           else
             take 1 ds @ (if 1 < n then lit ''.'' @ drop 1 ds else [])
               @ lit ''e'' @ (if p - 1 < 0 then lit ''-'' else lit ''+'')
               @ (if \<bar>p - 1\<bar> < 10 then lit ''0'' else []) @ dec (nat \<bar>p - 1\<bar>))"

fun str_float :: "pyfloat \<Rightarrow> pystr" where
  "str_float (Finite s c e) = (if s then lit ''-'' else []) @ str_finite c e"
| "str_float (Infinite s) = (if s then lit ''-inf'' else lit ''inf'')"
| "str_float NaN = lit ''nan''"

text \<open>
  What an f-string puts for \<^verbatim>\<open>{v}\<close>, that is \<^verbatim>\<open>str(v)\<close>. The text of a list or a dict
  is Python's \<^verbatim>\<open>repr\<close> of the container, with its quoting and escaping rules; it is
  taken as the parameter \<open>rp\<close>.
\<close>

fun py_str :: "(pyval \<Rightarrow> pystr) \<Rightarrow> pyval \<Rightarrow> pystr" where
  "py_str rp PNone = lit ''None''"
| "py_str rp (PBool b) = (if b then lit ''True'' else lit ''False'')"
| "py_str rp (PInt i) = str_int i"
| "py_str rp (PFloat f) = str_float f"
| "py_str rp (PStr s) = s"
| "py_str rp v = rp v"

section \<open>Effects\<close>

text \<open>
  Every outbound call and every Streamlit output is an event; a function with effects
  returns its value together with the events it caused, in order. A Streamlit output is
  recorded with the texts it is given and returns; the layout calls (sidebar, columns,
  tabs, spinner) leave no event. \<open>Summarize\<close> records that
  \<^verbatim>\<open>build_weather_summary\<close> was called.
\<close>

record request =
  url :: pystr
  params :: "(pystr \<times> pystr) list"
  timeout :: nat

record llm_args =
  model :: pystr
  temperature :: pyfloat
  google_api_key :: pystr

datatype event =
    HttpGet request
  | NewClient llm_args
  | Invoke pystr
  | Summarize pyval
  | StError pystr
  | StInfo pystr
  | StSuccess pystr
  | StCaption pystr
  | StMarkdown pystr
  | StCard pystr pystr pystr pystr pystr
  | StMetric pystr pystr "pystr option"
  | StWrite pystr
  | StProgress int pystr
  | StMap pyval nat
  | StJson pyval

section \<open>fetch_weather\<close>

text \<open>
  \<^verbatim>\<open>requests.get\<close>, \<^verbatim>\<open>raise_for_status\<close> and \<^verbatim>\<open>r.json()\<close> are the network: the
  parameter \<open>http\<close> gives, for a request, either the exception one of the three raises or
  the parsed payload. The whole body is inside \<^verbatim>\<open>try\<close>, so every exception, also the
  TypeError of \<^verbatim>\<open>in\<close>, becomes the error dictionary.
\<close>

definition weather_request :: "pystr \<Rightarrow> pystr \<Rightarrow> request" where
  "weather_request city api_key =
     \<lparr>url = lit ''http://api.weatherapi.com/v1/current.json'',
      params = [(lit ''key'', api_key), (lit ''q'', city), (lit ''aqi'', lit ''no'')],
      timeout = 15\<rparr>"

definition error_result :: "pystr \<Rightarrow> pyval" where
  "error_result msg = PDict [(lit ''error'', PStr msg)]"

text \<open>Line 74: \<^verbatim>\<open>data if "current" in data and "location" in data else None\<close>.\<close>

definition check_payload :: "pyval \<Rightarrow> pyval" where
  "check_payload data =
     (case contains (lit ''current'') data of
        Inl e \<Rightarrow> error_result (str_exn e)
      | Inr c \<Rightarrow>
          if c then
            (case contains (lit ''location'') data of
               Inl e \<Rightarrow> error_result (str_exn e)
             | Inr l \<Rightarrow> if l then data else PNone)
          else PNone)"

definition fetch_weather :: "(request \<Rightarrow> exn + pyval) \<Rightarrow> pystr \<Rightarrow> pystr \<Rightarrow> pyval \<times> event list" where
  "fetch_weather http city api_key =
     (let rq = weather_request city api_key
      in (case http rq of
            Inl e \<Rightarrow> error_result (str_exn e)
          | Inr data \<Rightarrow> check_payload data,
          [HttpGet rq]))"

section \<open>build_weather_summary\<close>

text \<open>Sequencing of steps that may raise: the first exception ends the computation.\<close>

definition andthen :: "exn + 'a \<Rightarrow> ('a \<Rightarrow> exn + 'b) \<Rightarrow> exn + 'b" where
  "andthen r f = (case r of Inl e \<Rightarrow> Inl e | Inr x \<Rightarrow> f x)"

text \<open>
  The subscripts are evaluated in the order of the source: \<^verbatim>\<open>loc\<close>, \<^verbatim>\<open>cur\<close>,
  \<^verbatim>\<open>cond\<close>, then the fields of the f-string from left to right. A missing key raises
  KeyError, a subscript on a value that is no dict raises TypeError.
\<close>

definition build_weather_summary :: "(pyval \<Rightarrow> pystr) \<Rightarrow> pyval \<Rightarrow> exn + pystr" where
  "build_weather_summary rp data =
     andthen (getitem data (lit ''location'')) (\<lambda>loc.
     andthen (getitem data (lit ''current'')) (\<lambda>cur.
     andthen (getitem cur (lit ''condition'')) (\<lambda>c.
     andthen (getitem c (lit ''text'')) (\<lambda>cond.
     andthen (getitem loc (lit ''name'')) (\<lambda>name.
     andthen (getitem loc (lit ''country'')) (\<lambda>country.
     andthen (getitem cur (lit ''temp_c'')) (\<lambda>temp_c.
     andthen (getitem cur (lit ''feelslike_c'')) (\<lambda>feelslike_c.
     andthen (getitem cur (lit ''wind_kph'')) (\<lambda>wind_kph.
     andthen (getitem cur (lit ''humidity'')) (\<lambda>humidity.
       Inr (lit ''Location: '' @ py_str rp name @ lit '', '' @ py_str rp country @ lit ''. ''
            @ lit ''Condition: '' @ py_str rp cond @ lit ''. Temp: '' @ py_str rp temp_c
            @ degree_sign @ lit ''C (feels '' @ py_str rp feelslike_c @ degree_sign @ lit ''C). ''
            @ lit ''Wind: '' @ py_str rp wind_kph @ lit '' kph. Humidity: ''
            @ py_str rp humidity @ lit ''%.'')))))))))))"

section \<open>get_attractions_md\<close>

text \<open>
  \<open>avail\<close> is the flag \<^verbatim>\<open>LLM_AVAILABLE\<close>. The constructor
  \<^verbatim>\<open>ChatGoogleGenerativeAI\<close> and \<^verbatim>\<open>llm.invoke(prompt).content\<close> belong to the client
  library: \<open>new_client\<close> gives the client or the exception the constructor raises,
  \<open>invoke_llm\<close> the content or the exception of the call. The function is annotated to
  return \<^verbatim>\<open>str\<close>, so the content is a text or \<^verbatim>\<open>None\<close>. The constructor is called
  before the \<^verbatim>\<open>try\<close>, so its exception leaves the function (\<open>Inl\<close>).
\<close>

definition prompt_text :: "pystr \<Rightarrow> pystr \<Rightarrow> pystr" where
  "prompt_text city weather_summary =
     lit ''You are a concise local guide.'' @ [10]
     @ lit ''City: '' @ city @ [10]
     @ lit ''Weather now: '' @ weather_summary @ [10, 10]
     @ lit ''Task: List 10 top attractions in '' @ city @ lit ''. ''
     @ lit ''For each, provide <= 20 words and say if it's ideal given the weather ''
     @ lit ''(e.g., 'great in sunshine', 'indoor-friendly today'). ''
     @ lit ''Return a Markdown bullet list with **bold** attraction names.''"

definition not_installed_msg :: pystr where
  "not_installed_msg =
     warning_sign @ lit '' Gemini package not installed. Run: `pip install langchain-google-genai`''"

definition gemini_args :: "pystr \<Rightarrow> llm_args" where
  "gemini_args google_key =
     \<lparr>model = lit ''gemini-2.5-flash'', temperature = Finite False 2 (- 1),
      google_api_key = google_key\<rparr>"

definition get_attractions_md ::
  "bool \<Rightarrow> (llm_args \<Rightarrow> exn + 'c) \<Rightarrow> ('c \<Rightarrow> pystr \<Rightarrow> exn + pystr option)
     \<Rightarrow> pystr \<Rightarrow> pystr \<Rightarrow> pystr \<Rightarrow> (exn + pystr) \<times> event list" where
  "get_attractions_md avail new_client invoke_llm city weather_summary google_key =
     (if \<not> avail then (Inr not_installed_msg, [])
      else
        let args = gemini_args google_key
        in case new_client args of
             Inl e \<Rightarrow> (Inl e, [NewClient args])
           | Inr llm \<Rightarrow>
               let prompt = prompt_text city weather_summary
               in (case invoke_llm llm prompt of
                     Inl e \<Rightarrow> Inr (warning_sign @ lit '' Gemini call failed: '' @ str_exn e)
                   | Inr content \<Rightarrow>
                       Inr (case content of
                              None \<Rightarrow> lit ''No response.''
                            | Some s \<Rightarrow> if s = [] then lit ''No response.'' else s),
                   [NewClient args, Invoke prompt]))"

section \<open>The five-minute cache\<close>

text \<open>
  Modelled from the spec: the cache of \<^verbatim>\<open>fetch_weather\<close>, which the source gets from
  Streamlit's decorator \<^verbatim>\<open>st.cache_data(show_spinner=False, ttl=300)\<close>; the decorator's
  code is not part of the repository. The ResultCache of the spec keeps, for each pair of
  city and key, the value and the time it expires, 300 seconds after it was created. The
  clock \<open>now\<close> counts seconds.
\<close>

record 'v cache_entry =
  entry_value :: 'v
  expires_at :: nat

type_synonym 'v cache = "pystr \<times> pystr \<Rightarrow> 'v cache_entry option"

definition ttl :: nat where
  "ttl = 300"

definition live :: "'v cache \<Rightarrow> nat \<Rightarrow> pystr \<Rightarrow> pystr \<Rightarrow> bool" where
  "live c now city api_key =
     (case c (city, api_key) of None \<Rightarrow> False | Some en \<Rightarrow> now \<le> expires_at en)"

text \<open>
  Modelled from the spec: \<^verbatim>\<open>getOrFetch(city, apiKey, fetchFn)\<close> of the ResultCache, the
  behaviour of the missing decorator. A live entry (at most 300 seconds old) is returned
  without calling the fetch function; otherwise the function is called and its result,
  whatever it is, is stored in place of the old entry and returned.
\<close>

definition get_or_fetch ::
  "nat \<Rightarrow> 'v cache \<Rightarrow> pystr \<Rightarrow> pystr \<Rightarrow> (pystr \<Rightarrow> pystr \<Rightarrow> 'v \<times> event list)
     \<Rightarrow> ('v \<times> event list) \<times> 'v cache" where
  "get_or_fetch now c city api_key fetch_fn =
     (case (if live c now city api_key then c (city, api_key) else None) of
        Some en \<Rightarrow> ((entry_value en, []), c)
      | None \<Rightarrow>
          (case fetch_fn city api_key of
             (v, evs) \<Rightarrow>
               ((v, evs), c((city, api_key) \<mapsto> \<lparr>entry_value = v, expires_at = now + ttl\<rparr>))))"

definition cached_fetch_weather ::
  "(request \<Rightarrow> exn + pyval) \<Rightarrow> nat \<Rightarrow> pyval cache \<Rightarrow> pystr \<Rightarrow> pystr
     \<Rightarrow> (pyval \<times> event list) \<times> pyval cache" where
  "cached_fetch_weather http now c city api_key =
     get_or_fetch now c city api_key (fetch_weather http)"

section \<open>The action block\<close>

text \<open>
  \<^verbatim>\<open>str.strip()\<close> removes the white space of both ends; a code point is white space when
  Python's \<^verbatim>\<open>str.isspace\<close> says so.
\<close>

definition is_space :: "nat \<Rightarrow> bool" where
  "is_space c =
     ((0x9 \<le> c \<and> c \<le> 0xD) \<or> (0x1C \<le> c \<and> c \<le> 0x20) \<or> c = 0x85 \<or> c = 0xA0
      \<or> c = 0x1680 \<or> (0x2000 \<le> c \<and> c \<le> 0x200A) \<or> c = 0x2028 \<or> c = 0x2029
      \<or> c = 0x202F \<or> c = 0x205F \<or> c = 0x3000)"

definition strip :: "pystr \<Rightarrow> pystr" where
  "strip s = rev (dropWhile is_space (rev (dropWhile is_space s)))"

text \<open>
  A run of the script is the list of events so far and either the value of the step or
  the reason the script ended there: \<^verbatim>\<open>st.stop()\<close> or an exception nobody caught.
\<close>

datatype halt = Stop | Raise exn

type_synonym 'a run = "event list \<times> (halt + 'a)"

definition seq :: "'a run \<Rightarrow> ('a \<Rightarrow> 'b run) \<Rightarrow> 'b run" where
  "seq m f =
     (case m of
        (evs, Inl h) \<Rightarrow> (evs, Inl h)
      | (evs, Inr x) \<Rightarrow> (case f x of (evs', r) \<Rightarrow> (evs @ evs', r)))"

definition emit :: "event \<Rightarrow> unit run" where
  "emit e = ([e], Inr ())"

definition compute :: "exn + 'a \<Rightarrow> 'a run" where
  "compute r = (case r of Inl e \<Rightarrow> ([], Inl (Raise e)) | Inr x \<Rightarrow> ([], Inr x))"

definition st_stop :: "unit run" where
  "st_stop = ([], Inl Stop)"

text \<open>
  What the script takes from outside: the capability flag set at import, the network,
  the client library, and three builtins of Python that are not spelled out here
  (\<^verbatim>\<open>repr\<close> of a container, \<^verbatim>\<open>format(v, '.1f')\<close> and \<^verbatim>\<open>int(v)\<close>).
\<close>

record 'c env =
  LLM_AVAILABLE :: bool
  env_http :: "request \<Rightarrow> exn + pyval"
  env_new_client :: "llm_args \<Rightarrow> exn + 'c"
  env_invoke :: "'c \<Rightarrow> pystr \<Rightarrow> exn + pystr option"
  env_repr :: "pyval \<Rightarrow> pystr"
  env_format_1f :: "pyval \<Rightarrow> exn + pystr"
  env_int :: "pyval \<Rightarrow> exn + int"

text \<open>
  Lines 149 to 151: \<^verbatim>\<open>if not data or data.get("error")\<close>, then the message built with
  \<^verbatim>\<open>data.get('error', 'Check city or API key.')\<close>, then \<^verbatim>\<open>st.stop()\<close>.
\<close>

definition fetch_failed :: "pyval \<Rightarrow> exn + bool" where
  "fetch_failed data =
     (if \<not> truthy data then Inr True
      else andthen (get_default data (lit ''error'') PNone) (\<lambda>v. Inr (truthy v)))"

definition weather_check :: "(pyval \<Rightarrow> pystr) \<Rightarrow> pyval \<Rightarrow> unit run" where
  "weather_check rp data =
     seq (compute (fetch_failed data)) (\<lambda>failed.
       if failed then
         seq (compute (get_default data (lit ''error'') (PStr (lit ''Check city or API key.''))))
           (\<lambda>v.
         seq (emit (StError (lit ''Could not fetch weather. '' @ py_str rp v))) (\<lambda>_.
         st_stop))
       else ([], Inr ()))"

text \<open>
  The weather card is an HTML template; the event keeps the five texts put into it
  (icon, condition, name, country, local time), in the order they are evaluated.
\<close>

definition weather_card :: "(pyval \<Rightarrow> pystr) \<Rightarrow> pyval \<Rightarrow> pyval \<Rightarrow> exn + event" where
  "weather_card rp cur loc =
     andthen (getitem cur (lit ''condition'')) (\<lambda>c1.
     andthen (getitem c1 (lit ''icon'')) (\<lambda>icon.
     andthen (getitem cur (lit ''condition'')) (\<lambda>c2.
     andthen (getitem c2 (lit ''text'')) (\<lambda>txt.
     andthen (getitem loc (lit ''name'')) (\<lambda>name.
     andthen (getitem loc (lit ''country'')) (\<lambda>country.
     andthen (getitem loc (lit ''localtime'')) (\<lambda>localtime.
       Inr (StCard (py_str rp icon) (py_str rp txt) (py_str rp name) (py_str rp country)
              (py_str rp localtime)))))))))"

definition temperature_metric :: "'c env \<Rightarrow> pyval \<Rightarrow> exn + event" where
  "temperature_metric E cur =
     andthen (getitem cur (lit ''temp_c'')) (\<lambda>t.
     andthen (env_format_1f E t) (\<lambda>ts.
     andthen (getitem cur (lit ''feelslike_c'')) (\<lambda>f.
     andthen (env_format_1f E f) (\<lambda>fs.
       Inr (StMetric (lit ''Temperature'') (ts @ lit '' '' @ degree_sign @ lit ''C'')
              (Some (lit ''Feels '' @ fs)))))))"

definition humidity_metric :: "(pyval \<Rightarrow> pystr) \<Rightarrow> pyval \<Rightarrow> exn + event" where
  "humidity_metric rp cur =
     andthen (getitem cur (lit ''humidity'')) (\<lambda>h.
       Inr (StMetric (lit ''Humidity'') (py_str rp h @ lit '' %'') None))"

definition wind_metric :: "(pyval \<Rightarrow> pystr) \<Rightarrow> pyval \<Rightarrow> exn + event" where
  "wind_metric rp cur =
     andthen (getitem cur (lit ''wind_kph'')) (\<lambda>w.
       Inr (StMetric (lit ''Wind'') (py_str rp w @ lit '' kph'') None))"

text \<open>Line 175: an absent pressure is shown as a dash.\<close>

definition pressure_metric :: "(pyval \<Rightarrow> pystr) \<Rightarrow> pyval \<Rightarrow> exn + event" where
  "pressure_metric rp cur =
     andthen (get_default cur (lit ''pressure_mb'') (PStr em_dash)) (\<lambda>p.
       Inr (StMetric (lit ''Pressure'') (py_str rp p @ lit '' mb'') None))"

text \<open>Lines 182 to 185: the details line, a dash for each absent field.\<close>

definition weather_details :: "(pyval \<Rightarrow> pystr) \<Rightarrow> pyval \<Rightarrow> exn + event" where
  "weather_details rp cur =
     andthen (get_default cur (lit ''cloud'') (PStr em_dash)) (\<lambda>cloud.
     andthen (get_default cur (lit ''uv'') (PStr em_dash)) (\<lambda>uv.
     andthen (get_default cur (lit ''vis_km'') (PStr em_dash)) (\<lambda>vis.
     andthen (get_default cur (lit ''wind_dir'') (PStr em_dash)) (\<lambda>wd.
       Inr (StWrite (lit ''**Cloud**: '' @ py_str rp cloud @ lit ''%  |  ''
              @ lit ''**UV**: '' @ py_str rp uv @ lit ''  |  ''
              @ lit ''**Visibility**: '' @ py_str rp vis @ lit '' km  |  ''
              @ lit ''**Wind dir**: '' @ py_str rp wd))))))"

definition humidity_progress :: "'c env \<Rightarrow> pyval \<Rightarrow> exn + event" where
  "humidity_progress E cur =
     andthen (get_default cur (lit ''humidity'') (PInt 0)) (\<lambda>h.
     andthen (env_int E h) (\<lambda>n.
       Inr (StProgress (min 100 n) (lit ''Humidity''))))"

definition city_map :: "pyval \<Rightarrow> exn + event" where
  "city_map loc =
     andthen (getitem loc (lit ''lat'')) (\<lambda>lat.
     andthen (getitem loc (lit ''lon'')) (\<lambda>lon.
       Inr (StMap (PDict [(lit ''lat'', PList [lat]), (lit ''lon'', PList [lon])]) 10)))"

text \<open>
  The attractions tab: the summary is built, then the advisor is asked. The event
  \<open>Summarize\<close> marks the call of \<^verbatim>\<open>build_weather_summary\<close>.
\<close>

definition attractions_tab :: "'c env \<Rightarrow> pystr \<Rightarrow> pystr \<Rightarrow> pyval \<Rightarrow> unit run" where
  "attractions_tab E city google_key data =
     seq (emit (Summarize data)) (\<lambda>_.
     seq (compute (build_weather_summary (env_repr E) data)) (\<lambda>weather_summary.
     seq (case get_attractions_md (LLM_AVAILABLE E) (env_new_client E) (env_invoke E)
                 city weather_summary google_key of
            (Inl e, evs) \<Rightarrow> (evs, Inl (Raise e))
          | (Inr md, evs) \<Rightarrow> (evs, Inr md)) (\<lambda>md.
       emit (StMarkdown md))))"

text \<open>Lines 153 to 201, after the weather has been fetched and checked.\<close>

definition render :: "'c env \<Rightarrow> pystr \<Rightarrow> pystr \<Rightarrow> pyval \<Rightarrow> unit run" where
  "render E city google_key data =
     seq (compute (getitem data (lit ''current''))) (\<lambda>cur.
     seq (compute (getitem data (lit ''location''))) (\<lambda>loc.
     seq (compute (weather_card (env_repr E) cur loc)) (\<lambda>card.
     seq (emit card) (\<lambda>_.
     seq (compute (temperature_metric E cur)) (\<lambda>m1.
     seq (emit m1) (\<lambda>_.
     seq (compute (humidity_metric (env_repr E) cur)) (\<lambda>m2.
     seq (emit m2) (\<lambda>_.
     seq (compute (wind_metric (env_repr E) cur)) (\<lambda>m3.
     seq (emit m3) (\<lambda>_.
     seq (compute (pressure_metric (env_repr E) cur)) (\<lambda>m4.
     seq (emit m4) (\<lambda>_.
     seq (compute (weather_details (env_repr E) cur)) (\<lambda>w.
     seq (emit w) (\<lambda>_.
     seq (compute (humidity_progress E cur)) (\<lambda>pr.
     seq (emit pr) (\<lambda>_.
     seq (attractions_tab E city google_key data) (\<lambda>_.
     seq (emit (StCaption (lit ''Approximate city location''))) (\<lambda>_.
     seq (compute (city_map loc)) (\<lambda>mp.
     seq (emit mp) (\<lambda>_.
     seq (emit (StJson data)) (\<lambda>_.
       emit (StSuccess (lit ''Done! Try another city.'')))))))))))))))))))))))"

text \<open>
  Lines 136 to 204. \<open>go\<close> is the button, \<open>now\<close> the clock and \<open>c\<close> the cache of
  \<^verbatim>\<open>fetch_weather\<close>; the run comes back with the cache as the run leaves it.
\<close>

definition action ::
  "'c env \<Rightarrow> nat \<Rightarrow> pyval cache \<Rightarrow> bool \<Rightarrow> pystr \<Rightarrow> pystr \<Rightarrow> pystr \<Rightarrow> unit run \<times> pyval cache" where
  "action E now c go google_key weather_key city =
     (if go then
        if strip google_key = [] then
          (seq (emit (StError (lit ''Please enter your Google Gemini API key.''))) (\<lambda>_. st_stop), c)
        else if strip weather_key = [] then
          (seq (emit (StError (lit ''Please enter your WeatherAPI key.''))) (\<lambda>_. st_stop), c)
        else
          (case cached_fetch_weather (env_http E) now c city weather_key of
             ((data, evs), c') \<Rightarrow>
               (seq (evs, Inr ()) (\<lambda>_.
                seq (weather_check (env_repr E) data) (\<lambda>_.
                render E city google_key data)), c'))
      else
        (emit (StInfo (lit ''Enter a city, add your API keys, then click **Generate Travel Guide**.'')),
         c))"

section \<open>Vocabulary of the properties\<close>

text \<open>A network that gives the same answer to every request.\<close>

definition http_const :: "exn + pyval \<Rightarrow> request \<Rightarrow> exn + pyval" where
  "http_const r rq = r"

text \<open>
  The WeatherResult of the specification is either the success fields \<^verbatim>\<open>location\<close> and
  \<^verbatim>\<open>current\<close> or the field \<^verbatim>\<open>error\<close>: \<open>error_only\<close> holds of a dictionary with the
  error text and nothing else, \<open>result_invariant\<close> when exactly one of the two kinds of
  field is there.
\<close>

definition error_only :: "pyval \<Rightarrow> bool" where
  "error_only v = (case v of PDict [(k, PStr m)] \<Rightarrow> k = lit ''error'' | _ \<Rightarrow> False)"

definition has_success :: "pyval \<Rightarrow> bool" where
  "has_success v =
     (case v of
        PDict kvs \<Rightarrow> map_of kvs (lit ''location'') \<noteq> None \<or> map_of kvs (lit ''current'') \<noteq> None
      | _ \<Rightarrow> False)"

definition has_error :: "pyval \<Rightarrow> bool" where
  "has_error v = (case v of PDict kvs \<Rightarrow> map_of kvs (lit ''error'') \<noteq> None | _ \<Rightarrow> False)"

definition result_invariant :: "pyval \<Rightarrow> bool" where
  "result_invariant v = (has_success v \<noteq> has_error v)"

text \<open>What the display puts for the field \<open>k\<close> of the current conditions: a dash when absent.\<close>

definition shown :: "(pyval \<Rightarrow> pystr) \<Rightarrow> (pystr \<times> pyval) list \<Rightarrow> pystr \<Rightarrow> pystr" where
  "shown rp cur k = (case map_of cur k of None \<Rightarrow> em_dash | Some v \<Rightarrow> py_str rp v)"

text \<open>The result of the specification's example, and a second report with other values.\<close>

definition paris_weather :: pyval where
  "paris_weather =
     PDict [(lit ''location'',
               PDict [(lit ''name'', PStr (lit ''Paris'')), (lit ''country'', PStr (lit ''France''))]),
            (lit ''current'',
               PDict [(lit ''condition'', PDict [(lit ''text'', PStr (lit ''Sunny''))]),
                      (lit ''temp_c'', PFloat (Finite False 225 (- 1))),
                      (lit ''feelslike_c'', PFloat (Finite False 210 (- 1))),
                      (lit ''wind_kph'', PInt 10),
                      (lit ''humidity'', PInt 40)])]"

definition paris_sentence :: pystr where
  "paris_sentence =
     lit ''Location: Paris, France. Condition: Sunny. Temp: 22.5'' @ degree_sign
     @ lit ''C (feels 21.0'' @ degree_sign @ lit ''C). Wind: 10 kph. Humidity: 40%.''"

definition london_weather :: pyval where
  "london_weather =
     PDict [(lit ''current'',
               PDict [(lit ''temp_c'', PInt (- 3)),
                      (lit ''condition'',
                         PDict [(lit ''text'', PStr (lit ''Fog'')), (lit ''code'', PInt 1135)]),
                      (lit ''feelslike_c'', PFloat (Finite True 75 (- 1))),
                      (lit ''wind_kph'', PFloat (Finite False 36 (- 1))),
                      (lit ''humidity'', PInt 100),
                      (lit ''uv'', PNone)]),
            (lit ''location'',
               PDict [(lit ''country'', PStr (lit ''UK'')), (lit ''name'', PStr (lit ''London''))])]"

definition no_repr :: "pyval \<Rightarrow> pystr" where
  "no_repr v = lit ''...''"


definition ready_client :: "llm_args \<Rightarrow> exn + unit" where
  "ready_client args = Inr ()"

definition llm_const :: "exn + pystr option \<Rightarrow> unit \<Rightarrow> pystr \<Rightarrow> exn + pystr option" where
  "llm_const r llm prompt = r"



text \<open>
  An environment for running the script: the network answers \<open>answer\<close>, the model
  answers with one line, and the two numeric builtins are given on the values the sample
  reports hold (integers, and floats with at most one decimal place).
\<close>

definition one_decimal :: "pyval \<Rightarrow> exn + pystr" where
  "one_decimal v =
     (case v of
        PInt i \<Rightarrow> Inr (str_int i @ lit ''.0'')
      | PFloat (Finite s c e) \<Rightarrow>
          if (e = 0 \<or> e = - 1) \<and> c < 10 ^ 15 then Inr (str_float (Finite s c e))
          else Inl (Exn External (lit ''not covered''))
      | _ \<Rightarrow> Inl (Exn TypeError (lit ''unsupported format string'')))"

definition whole :: "pyval \<Rightarrow> exn + int" where
  "whole v =
     (case v of
        PInt i \<Rightarrow> Inr i
      | PBool b \<Rightarrow> Inr (if b then 1 else 0)
      | _ \<Rightarrow> Inl (Exn External (lit ''not covered'')))"

definition sample_env :: "exn + pyval \<Rightarrow> unit env" where
  "sample_env answer =
     \<lparr>LLM_AVAILABLE = True, env_http = http_const answer, env_new_client = ready_client,
      env_invoke = llm_const (Inr (Some (lit ''- **Louvre**: indoor-friendly today''))),
      env_repr = no_repr, env_format_1f = one_decimal, env_int = whole\<rparr>"

text \<open>A complete report, as the provider sends it.\<close>

definition paris_loc :: pyval where
  "paris_loc =
     PDict [(lit ''name'', PStr (lit ''Paris'')), (lit ''country'', PStr (lit ''France'')),
            (lit ''lat'', PFloat (Finite False 4887 (- 2))),
            (lit ''lon'', PFloat (Finite False 233 (- 2))),
            (lit ''localtime'', PStr (lit ''2024-06-01 12:00''))]"

definition paris_cur :: pyval where
  "paris_cur =
     PDict [(lit ''temp_c'', PFloat (Finite False 225 (- 1))),
            (lit ''condition'',
               PDict [(lit ''text'', PStr (lit ''Sunny'')),
                      (lit ''icon'', PStr (lit ''//cdn.weatherapi.com/weather/64x64/day/113.png''))]),
            (lit ''wind_kph'', PInt 10),
            (lit ''pressure_mb'', PFloat (Finite False 1015 0)),
            (lit ''humidity'', PInt 40),
            (lit ''feelslike_c'', PFloat (Finite False 210 (- 1)))]"

definition paris_report :: pyval where
  "paris_report = PDict [(lit ''location'', paris_loc), (lit ''current'', paris_cur)]"

definition no_cache :: "pyval cache" where
  "no_cache k = None"


section \<open>Properties of fetch_weather\<close>

lemma check_payload_dict:
  "check_payload (PDict kvs) =
     (if map_of kvs (lit ''current'') \<noteq> None \<and> map_of kvs (lit ''location'') \<noteq> None
      then PDict kvs else PNone)"
  by (simp add: check_payload_def)

lemma check_payload_shape:
  "check_payload data = PNone \<or> (\<exists>m. check_payload data = error_result m)
     \<or> (check_payload data = data \<and> contains (lit ''current'') data = Inr True
          \<and> contains (lit ''location'') data = Inr True)"
  by (auto simp: check_payload_def split: sum.splits)

text \<open>
  Claim C1, as the code has it. A payload that is a JSON object without \<^verbatim>\<open>current\<close>
  or without \<^verbatim>\<open>location\<close> makes \<^verbatim>\<open>fetch_weather\<close> return \<^verbatim>\<open>None\<close>, after its one
  request: no error field, no success field, no exception. Only these two keys are
  looked at, and an object that has both comes back as it is.
\<close>

theorem fetch_weather_incomplete:
  assumes "http (weather_request city api_key) = Inr (PDict kvs)"
  shows "fetch_weather http city api_key =
     (if map_of kvs (lit ''current'') \<noteq> None \<and> map_of kvs (lit ''location'') \<noteq> None
      then PDict kvs else PNone, [HttpGet (weather_request city api_key)])"
  using assms by (simp add: fetch_weather_def Let_def check_payload_dict)

text \<open>The theorem at a payload that has the location and no current conditions.\<close>

theorem fetch_weather_incomplete_witness:
  "fetch_weather (http_const (Inr (PDict [(lit ''location'', PDict [])]))) (lit ''Paris'') (lit ''k'')
     = (PNone, [HttpGet (weather_request (lit ''Paris'') (lit ''k''))])"
  using fetch_weather_incomplete [of "http_const (Inr (PDict [(lit ''location'', PDict [])]))"
      "lit ''Paris''" "lit ''k''" "[(lit ''location'', PDict [])]"]
  by (simp add: http_const_def lit_def)

text \<open>
  Claim C1 as stated fails: for a payload without \<^verbatim>\<open>current\<close> the result is \<^verbatim>\<open>None\<close>,
  which is not a result with the error field set.
\<close>

theorem missing_current_counterexample:
  "fst (fetch_weather
          (http_const (Inr (PDict [(lit ''location'', PDict [(lit ''name'', PStr (lit ''Paris''))])])))
          (lit ''Paris'') (lit ''k'')) = PNone
   \<and> \<not> error_only (fst (fetch_weather
          (http_const (Inr (PDict [(lit ''location'', PDict [(lit ''name'', PStr (lit ''Paris''))])])))
          (lit ''Paris'') (lit ''k'')))"
  by (simp add: fetch_weather_def Let_def check_payload_dict http_const_def error_only_def lit_def)

text \<open>
  Claim C4, as the code has it. A value \<^verbatim>\<open>fetch_weather\<close> returns is \<^verbatim>\<open>None\<close>, or a
  dictionary holding the error text and nothing else, or the payload the network gave,
  unchanged, in which \<^verbatim>\<open>current\<close> and \<^verbatim>\<open>location\<close> both occur.
\<close>

theorem fetch_weather_shape:
  "fst (fetch_weather http city api_key) = PNone
   \<or> (\<exists>m. fst (fetch_weather http city api_key) = error_result m)
   \<or> (http (weather_request city api_key) = Inr (fst (fetch_weather http city api_key))
        \<and> contains (lit ''current'') (fst (fetch_weather http city api_key)) = Inr True
        \<and> contains (lit ''location'') (fst (fetch_weather http city api_key)) = Inr True)"
proof (cases "http (weather_request city api_key)")
  case (Inl e)
  then show ?thesis by (auto simp: fetch_weather_def Let_def)
next
  case (Inr data)
  then show ?thesis using check_payload_shape [of data]
    by (auto simp: fetch_weather_def Let_def)
qed

text \<open>
  Claim C4 as stated fails both ways: an empty object gives \<^verbatim>\<open>None\<close>, where neither
  kind of field is set, and an object with \<^verbatim>\<open>location\<close>, \<^verbatim>\<open>current\<close> and \<^verbatim>\<open>error\<close>
  comes back with both.
\<close>

theorem invariant_counterexample:
  "\<not> result_invariant (fst (fetch_weather (http_const (Inr (PDict []))) (lit ''Paris'') (lit ''k'')))
   \<and> \<not> result_invariant (fst (fetch_weather
         (http_const (Inr (PDict [(lit ''location'', PDict []), (lit ''current'', PDict []),
                                  (lit ''error'', PStr (lit ''x''))])))
         (lit ''Paris'') (lit ''k'')))"
  by (simp add: fetch_weather_def Let_def check_payload_dict http_const_def result_invariant_def
        has_success_def has_error_def lit_def)

lemma shown_get:
  "py_str rp (case map_of cur k of None \<Rightarrow> PStr em_dash | Some v \<Rightarrow> v) = shown rp cur k"
  by (simp add: shown_def split: option.splits)

lemma pressure_metric_dict:
  "pressure_metric rp (PDict cur) =
     Inr (StMetric (lit ''Pressure'') (shown rp cur (lit ''pressure_mb'') @ lit '' mb'') None)"
  by (simp add: pressure_metric_def andthen_def shown_get)

lemma weather_details_dict:
  "weather_details rp (PDict cur) =
     Inr (StWrite (lit ''**Cloud**: '' @ shown rp cur (lit ''cloud'') @ lit ''%  |  ''
            @ lit ''**UV**: '' @ shown rp cur (lit ''uv'') @ lit ''  |  ''
            @ lit ''**Visibility**: '' @ shown rp cur (lit ''vis_km'') @ lit '' km  |  ''
            @ lit ''**Wind dir**: '' @ shown rp cur (lit ''wind_dir'')))"
  by (simp add: weather_details_def andthen_def shown_get)

text \<open>
  Claim C8, as the code has it. A payload with \<^verbatim>\<open>current\<close> and \<^verbatim>\<open>location\<close> is
  returned unchanged: every field the provider supplied and no other, so an absent
  optional field is absent in the result too. The mark for unknown is put in by the
  display: the pressure metric and the details line show each of \<^verbatim>\<open>pressure_mb\<close>,
  \<^verbatim>\<open>cloud\<close>, \<^verbatim>\<open>uv\<close>, \<^verbatim>\<open>vis_km\<close> and \<^verbatim>\<open>wind_dir\<close> as a dash when it is absent.
\<close>

theorem fetch_weather_unchanged:
  assumes "http (weather_request city api_key) = Inr (PDict kvs)"
    and "map_of kvs (lit ''current'') = Some (PDict cur)"
    and "map_of kvs (lit ''location'') = Some loc"
  shows "fst (fetch_weather http city api_key) = PDict kvs
    \<and> pressure_metric rp (PDict cur) =
         Inr (StMetric (lit ''Pressure'') (shown rp cur (lit ''pressure_mb'') @ lit '' mb'') None)
    \<and> weather_details rp (PDict cur) =
         Inr (StWrite (lit ''**Cloud**: '' @ shown rp cur (lit ''cloud'') @ lit ''%  |  ''
            @ lit ''**UV**: '' @ shown rp cur (lit ''uv'') @ lit ''  |  ''
            @ lit ''**Visibility**: '' @ shown rp cur (lit ''vis_km'') @ lit '' km  |  ''
            @ lit ''**Wind dir**: '' @ shown rp cur (lit ''wind_dir'')))
    \<and> (map_of cur k = None \<longrightarrow> shown rp cur k = em_dash)"
  using assms
  by (simp add: fetch_weather_def Let_def check_payload_dict pressure_metric_dict
        weather_details_dict shown_def)

text \<open>
  The theorem at the report for Paris, which has none of the optional fields: the result
  is the report itself, and the display shows five dashes.
\<close>

theorem fetch_weather_unchanged_witness:
  "fst (fetch_weather (http_const (Inr paris_weather)) (lit ''Paris'') (lit ''k'')) = paris_weather
   \<and> pressure_metric no_repr
        (PDict [(lit ''condition'', PDict [(lit ''text'', PStr (lit ''Sunny''))]),
                (lit ''temp_c'', PFloat (Finite False 225 (- 1))),
                (lit ''feelslike_c'', PFloat (Finite False 210 (- 1))),
                (lit ''wind_kph'', PInt 10),
                (lit ''humidity'', PInt 40)])
      = Inr (StMetric (lit ''Pressure'') (em_dash @ lit '' mb'') None)
   \<and> weather_details no_repr
        (PDict [(lit ''condition'', PDict [(lit ''text'', PStr (lit ''Sunny''))]),
                (lit ''temp_c'', PFloat (Finite False 225 (- 1))),
                (lit ''feelslike_c'', PFloat (Finite False 210 (- 1))),
                (lit ''wind_kph'', PInt 10),
                (lit ''humidity'', PInt 40)])
      = Inr (StWrite (lit ''**Cloud**: '' @ em_dash @ lit ''%  |  '' @ lit ''**UV**: '' @ em_dash
               @ lit ''  |  '' @ lit ''**Visibility**: '' @ em_dash @ lit '' km  |  ''
               @ lit ''**Wind dir**: '' @ em_dash))"
proof -
  let ?cur = "[(lit ''condition'', PDict [(lit ''text'', PStr (lit ''Sunny''))]),
                (lit ''temp_c'', PFloat (Finite False 225 (- 1))),
                (lit ''feelslike_c'', PFloat (Finite False 210 (- 1))),
                (lit ''wind_kph'', PInt 10),
                (lit ''humidity'', PInt 40)]"
  let ?loc = "PDict [(lit ''name'', PStr (lit ''Paris'')), (lit ''country'', PStr (lit ''France''))]"
  have h: "http_const (Inr paris_weather) (weather_request (lit ''Paris'') (lit ''k''))
       = Inr (PDict [(lit ''location'', ?loc), (lit ''current'', PDict ?cur)])"
    by (simp add: http_const_def paris_weather_def)
  have c: "map_of [(lit ''location'', ?loc), (lit ''current'', PDict ?cur)] (lit ''current'')
       = Some (PDict ?cur)"
    by (simp add: lit_def)
  have l: "map_of [(lit ''location'', ?loc), (lit ''current'', PDict ?cur)] (lit ''location'')
       = Some ?loc"
    by (simp add: lit_def)
  have s: "shown no_repr ?cur (lit ''pressure_mb'') = em_dash"
    "shown no_repr ?cur (lit ''cloud'') = em_dash"
    "shown no_repr ?cur (lit ''uv'') = em_dash"
    "shown no_repr ?cur (lit ''vis_km'') = em_dash"
    "shown no_repr ?cur (lit ''wind_dir'') = em_dash"
    by (simp_all add: shown_def lit_def)
  show ?thesis
    using fetch_weather_unchanged [where http = "http_const (Inr paris_weather)"
        and city = "lit ''Paris''" and api_key = "lit ''k''" and rp = no_repr
        and k = "lit ''uv''", OF h c l]
    by (simp add: s paris_weather_def)
qed

text \<open>
  Claim C8 as stated fails: the report for Paris has no \<^verbatim>\<open>pressure_mb\<close>, and the
  current conditions of the result have no entry for it either, so no mark.
\<close>

theorem unknown_marker_counterexample:
  "andthen (getitem (fst (fetch_weather (http_const (Inr paris_weather)) (lit ''Paris'') (lit ''k'')))
              (lit ''current''))
     (contains (lit ''pressure_mb'')) = Inr False"
  by (simp add: fetch_weather_def Let_def check_payload_dict http_const_def paris_weather_def
        andthen_def lit_def)


section \<open>Properties of build_weather_summary\<close>

lemma summary_template:
  assumes "getitem data (lit ''location'') = Inr loc"
    and "getitem data (lit ''current'') = Inr cur"
    and "getitem cur (lit ''condition'') = Inr c"
    and "getitem c (lit ''text'') = Inr cond"
    and "getitem loc (lit ''name'') = Inr name"
    and "getitem loc (lit ''country'') = Inr country"
    and "getitem cur (lit ''temp_c'') = Inr temp_c"
    and "getitem cur (lit ''feelslike_c'') = Inr feelslike_c"
    and "getitem cur (lit ''wind_kph'') = Inr wind_kph"
    and "getitem cur (lit ''humidity'') = Inr humidity"
  shows "build_weather_summary rp data =
     Inr (lit ''Location: '' @ py_str rp name @ lit '', '' @ py_str rp country
          @ lit ''. Condition: '' @ py_str rp cond
          @ lit ''. Temp: '' @ py_str rp temp_c @ degree_sign
          @ lit ''C (feels '' @ py_str rp feelslike_c @ degree_sign
          @ lit ''C). Wind: '' @ py_str rp wind_kph
          @ lit '' kph. Humidity: '' @ py_str rp humidity @ lit ''%.'')"
  using assms by (simp add: build_weather_summary_def andthen_def lit_def)

lemma str_finite_22_5: "str_finite 225 (- 1) = lit ''22.5''"
  by code_simp

lemma str_finite_21_0: "str_finite 210 (- 1) = lit ''21.0''"
  by code_simp

lemma str_finite_7_5: "str_finite 75 (- 1) = lit ''7.5''"
  by code_simp

lemma str_finite_3_6: "str_finite 36 (- 1) = lit ''3.6''"
  by code_simp

lemma str_int_values:
  "str_int 10 = lit ''10''" "str_int 40 = lit ''40''" "str_int (- 3) = lit ''-3''"
  "str_int 100 = lit ''100''"
  by code_simp+

lemma paris_summary: "build_weather_summary rp paris_weather = Inr paris_sentence"
proof -
  let ?loc = "PDict [(lit ''name'', PStr (lit ''Paris'')), (lit ''country'', PStr (lit ''France''))]"
  let ?c = "PDict [(lit ''text'', PStr (lit ''Sunny''))]"
  let ?cur = "PDict [(lit ''condition'', ?c),
                     (lit ''temp_c'', PFloat (Finite False 225 (- 1))),
                     (lit ''feelslike_c'', PFloat (Finite False 210 (- 1))),
                     (lit ''wind_kph'', PInt 10),
                     (lit ''humidity'', PInt 40)]"
  have "build_weather_summary rp paris_weather =
     Inr (lit ''Location: '' @ py_str rp (PStr (lit ''Paris'')) @ lit '', ''
          @ py_str rp (PStr (lit ''France''))
          @ lit ''. Condition: '' @ py_str rp (PStr (lit ''Sunny''))
          @ lit ''. Temp: '' @ py_str rp (PFloat (Finite False 225 (- 1))) @ degree_sign
          @ lit ''C (feels '' @ py_str rp (PFloat (Finite False 210 (- 1))) @ degree_sign
          @ lit ''C). Wind: '' @ py_str rp (PInt 10)
          @ lit '' kph. Humidity: '' @ py_str rp (PInt 40) @ lit ''%.'')"
    by (rule summary_template [where loc = ?loc and cur = ?cur and c = ?c])
       (simp_all add: paris_weather_def lit_def)
  also have "\<dots> = Inr paris_sentence"
    by (simp add: str_finite_22_5 str_finite_21_0 str_int_values paris_sentence_def)
       (simp add: lit_def)
  finally show ?thesis .
qed

text \<open>
  Claim C3. For the result of the example (Sunny, 22.5, 21.0, 10, 40, Paris, France)
  \<^verbatim>\<open>build_weather_summary\<close> returns exactly the sentence of the specification, and for
  every result that has the ten fields it reads it returns the fixed template filled with
  the texts of location, condition, temperature, feels-like, wind and humidity. It has
  no effect and no input but the result.
\<close>

theorem summary_sentence:
  assumes "getitem data (lit ''location'') = Inr loc"
    and "getitem data (lit ''current'') = Inr cur"
    and "getitem cur (lit ''condition'') = Inr c"
    and "getitem c (lit ''text'') = Inr cond"
    and "getitem loc (lit ''name'') = Inr name"
    and "getitem loc (lit ''country'') = Inr country"
    and "getitem cur (lit ''temp_c'') = Inr temp_c"
    and "getitem cur (lit ''feelslike_c'') = Inr feelslike_c"
    and "getitem cur (lit ''wind_kph'') = Inr wind_kph"
    and "getitem cur (lit ''humidity'') = Inr humidity"
  shows "build_weather_summary rp paris_weather = Inr paris_sentence
    \<and> build_weather_summary rp data =
     Inr (lit ''Location: '' @ py_str rp name @ lit '', '' @ py_str rp country
          @ lit ''. Condition: '' @ py_str rp cond
          @ lit ''. Temp: '' @ py_str rp temp_c @ degree_sign
          @ lit ''C (feels '' @ py_str rp feelslike_c @ degree_sign
          @ lit ''C). Wind: '' @ py_str rp wind_kph
          @ lit '' kph. Humidity: '' @ py_str rp humidity @ lit ''%.'')"
  using paris_summary [of rp] summary_template [OF assms, of rp] by simp

text \<open>
  The theorem at a second report, with a negative integer temperature, floats for
  feels-like and wind, and fields in another order.
\<close>

theorem summary_sentence_witness:
  "build_weather_summary no_repr paris_weather = Inr paris_sentence
   \<and> build_weather_summary no_repr london_weather =
     Inr (lit ''Location: London, UK. Condition: Fog. Temp: -3'' @ degree_sign
          @ lit ''C (feels -7.5'' @ degree_sign @ lit ''C). Wind: 3.6 kph. Humidity: 100%.'')"
proof -
  let ?loc = "PDict [(lit ''country'', PStr (lit ''UK'')), (lit ''name'', PStr (lit ''London''))]"
  let ?c = "PDict [(lit ''text'', PStr (lit ''Fog'')), (lit ''code'', PInt 1135)]"
  let ?cur = "PDict [(lit ''temp_c'', PInt (- 3)),
                     (lit ''condition'', ?c),
                     (lit ''feelslike_c'', PFloat (Finite True 75 (- 1))),
                     (lit ''wind_kph'', PFloat (Finite False 36 (- 1))),
                     (lit ''humidity'', PInt 100),
                     (lit ''uv'', PNone)]"
  have "build_weather_summary no_repr paris_weather = Inr paris_sentence
    \<and> build_weather_summary no_repr london_weather =
     Inr (lit ''Location: '' @ py_str no_repr (PStr (lit ''London'')) @ lit '', ''
          @ py_str no_repr (PStr (lit ''UK''))
          @ lit ''. Condition: '' @ py_str no_repr (PStr (lit ''Fog''))
          @ lit ''. Temp: '' @ py_str no_repr (PInt (- 3)) @ degree_sign
          @ lit ''C (feels '' @ py_str no_repr (PFloat (Finite True 75 (- 1))) @ degree_sign
          @ lit ''C). Wind: '' @ py_str no_repr (PFloat (Finite False 36 (- 1)))
          @ lit '' kph. Humidity: '' @ py_str no_repr (PInt 100) @ lit ''%.'')"
    by (rule summary_sentence [where loc = ?loc and cur = ?cur and c = ?c])
       (simp_all add: london_weather_def lit_def)
  then show ?thesis
    by (simp add: str_finite_7_5 str_finite_3_6 str_int_values) (simp add: lit_def)
qed


section \<open>Properties of get_attractions_md\<close>

text \<open>
  Claim C6. With the capability flag false, \<^verbatim>\<open>get_attractions_md\<close> returns the fixed
  instruction whatever the city, the summary and the key are, and causes no event: no
  client is constructed and nothing is sent.
\<close>

theorem capability_off:
  "get_attractions_md False new_client invoke_llm city weather_summary google_key =
     (Inr (warning_sign
           @ lit '' Gemini package not installed. Run: `pip install langchain-google-genai`''), [])"
  by (simp add: get_attractions_md_def not_installed_msg_def)

text \<open>
  Claim C9. With the flag true, when the call of the model succeeds and its content is
  absent or the empty text, the function returns the text \<^verbatim>\<open>No response.\<close>
\<close>

theorem empty_content:
  assumes "new_client (gemini_args google_key) = Inr llm"
    and "invoke_llm llm (prompt_text city weather_summary) = Inr content"
    and "content = None \<or> content = Some []"
  shows "fst (get_attractions_md True new_client invoke_llm city weather_summary google_key)
     = Inr (lit ''No response.'')"
  using assms by (auto simp: get_attractions_md_def Let_def)

text \<open>The theorem at an empty content and at an absent content.\<close>

theorem empty_content_witness:
  "fst (get_attractions_md True ready_client (llm_const (Inr (Some []))) (lit ''Paris'')
          paris_sentence (lit ''g''))
     = Inr (lit ''No response.'')
   \<and> fst (get_attractions_md True ready_client (llm_const (Inr None)) (lit ''Paris'')
          paris_sentence (lit ''g''))
     = Inr (lit ''No response.'')"
  using empty_content [of ready_client "lit ''g''" "()" "llm_const (Inr (Some []))" "lit ''Paris''"
      paris_sentence "Some []"]
    empty_content [of ready_client "lit ''g''" "()" "llm_const (Inr None)" "lit ''Paris''"
      paris_sentence None]
  by (simp add: ready_client_def llm_const_def)





section \<open>Properties of the cache\<close>

lemma get_or_fetch_hit:
  assumes "c (city, api_key) = Some en" and "now \<le> expires_at en"
  shows "get_or_fetch now c city api_key fetch_fn = ((entry_value en, []), c)"
  using assms by (simp add: get_or_fetch_def live_def)

lemma get_or_fetch_miss:
  assumes "\<not> live c now city api_key"
  shows "get_or_fetch now c city api_key fetch_fn =
     (fetch_fn city api_key,
      c((city, api_key) \<mapsto> \<lparr>entry_value = fst (fetch_fn city api_key), expires_at = now + ttl\<rparr>))"
  using assms by (simp add: get_or_fetch_def split: prod.splits)

lemma not_live_expired:
  assumes "c (city, api_key) = Some en" and "expires_at en < now"
  shows "\<not> live c now city api_key"
  using assms by (simp add: live_def)


text \<open>
  Claim C5. Take a pair of city and key with no live entry at time \<open>t1\<close>, so that the
  call at \<open>t1\<close> creates the entry. A second call at most 300 seconds later returns the
  stored result, whatever the network would answer by then and whatever the result is
  (an error result too), and the two calls together make one request: the fetch function
  ran once. A call more than 300 seconds after \<open>t1\<close> runs the fetch function again.
  Between the calls the cache may have served other pairs.
\<close>

theorem cache_ttl:
  assumes fresh: "\<not> live c t1 city api_key"
    and within: "t1 \<le> t2" "t2 \<le> t1 + 300"
    and after: "t1 + 300 < t3"
    and first: "cached_fetch_weather http1 t1 c city api_key = ((r1, e1), c1)"
    and keep1: "c1' (city, api_key) = c1 (city, api_key)"
    and second: "cached_fetch_weather http2 t2 c1' city api_key = ((r2, e2), c2)"
    and keep2: "c2' (city, api_key) = c2 (city, api_key)"
    and third: "cached_fetch_weather http3 t3 c2' city api_key = ((r3, e3), c3)"
  shows "(r1, e1) = fetch_weather http1 city api_key
       \<and> (r2, e2) = (r1, []) \<and> e1 @ e2 = [HttpGet (weather_request city api_key)]
       \<and> (r3, e3) = fetch_weather http3 city api_key"
proof -
  let ?en = "\<lparr>entry_value = fst (fetch_weather http1 city api_key), expires_at = t1 + ttl\<rparr>"
  from first fresh have 1: "(r1, e1) = fetch_weather http1 city api_key"
    and c1: "c1 (city, api_key) = Some ?en"
    by (auto simp: cached_fetch_weather_def get_or_fetch_miss)
  from c1 keep1 have c1': "c1' (city, api_key) = Some ?en" by simp
  have "t2 \<le> expires_at ?en" using within by (simp add: ttl_def)
  from get_or_fetch_hit [where c = c1' and city = city and api_key = api_key, OF c1' this] second
  have 2: "r2 = fst (fetch_weather http1 city api_key)" "e2 = []" and c2: "c2 = c1'"
    by (auto simp: cached_fetch_weather_def)
  from c2 c1' keep2 have c2': "c2' (city, api_key) = Some ?en" by simp
  have "expires_at ?en < t3" using after by (simp add: ttl_def)
  from not_live_expired [where c = c2' and city = city and api_key = api_key, OF c2' this] third
  have 3: "(r3, e3) = fetch_weather http3 city api_key"
    by (auto simp: cached_fetch_weather_def get_or_fetch_miss)
  from 1 have "e1 = [HttpGet (weather_request city api_key)]"
    by (simp add: fetch_weather_def Let_def)
  with 1 2 3 show ?thesis by (metis fst_conv append_Nil2)
qed

text \<open>
  The theorem on an empty cache: the request at second 1000 times out, and the error
  result is served again at second 1300 although the network is back; at second 1301
  the report is fetched.
\<close>

theorem cache_ttl_witness:
  "fst (cached_fetch_weather (http_const (Inl (Exn External (lit ''timed out'')))) 1000 no_cache
          (lit ''Paris'') (lit ''k''))
     = (error_result (lit ''timed out''), [HttpGet (weather_request (lit ''Paris'') (lit ''k''))])
   \<and> fst (cached_fetch_weather (http_const (Inr paris_weather)) 1300
          (snd (cached_fetch_weather (http_const (Inl (Exn External (lit ''timed out'')))) 1000
                  no_cache (lit ''Paris'') (lit ''k'')))
          (lit ''Paris'') (lit ''k''))
     = (error_result (lit ''timed out''), [])
   \<and> fst (cached_fetch_weather (http_const (Inr paris_weather)) 1301
          (snd (cached_fetch_weather (http_const (Inl (Exn External (lit ''timed out'')))) 1000
                  no_cache (lit ''Paris'') (lit ''k'')))
          (lit ''Paris'') (lit ''k''))
     = (paris_weather, [HttpGet (weather_request (lit ''Paris'') (lit ''k''))])"
proof -
  let ?h1 = "http_const (Inl (Exn External (lit ''timed out'')))"
  let ?h2 = "http_const (Inr paris_weather)"
  let ?P = "lit ''Paris''"
  let ?k = "lit ''k''"
  let ?A = "cached_fetch_weather ?h1 1000 no_cache ?P ?k"
  let ?B = "cached_fetch_weather ?h2 1300 (snd ?A) ?P ?k"
  let ?C = "cached_fetch_weather ?h2 1301 (snd ?B) ?P ?k"
  have fresh: "\<not> live no_cache 1000 ?P ?k"
    by (simp add: live_def no_cache_def)
  have a: "?A = ((fst (fst ?A), snd (fst ?A)), snd ?A)" by simp
  have b: "?B = ((fst (fst ?B), snd (fst ?B)), snd ?B)" by simp
  have c: "?C = ((fst (fst ?C), snd (fst ?C)), snd ?C)" by simp
  have t: "(1000::nat) \<le> 1300" "(1300::nat) \<le> 1000 + 300" "(1000::nat) + 300 < 1301"
    by simp_all
  have same: "snd ?B = snd ?A"
    by (simp add: cached_fetch_weather_def get_or_fetch_def live_def no_cache_def ttl_def
          split: prod.splits)
  have f1: "fetch_weather ?h1 ?P ?k
      = (error_result (lit ''timed out''), [HttpGet (weather_request ?P ?k)])"
    by (simp add: fetch_weather_def Let_def http_const_def)
  have f3: "fetch_weather ?h2 ?P ?k = (paris_weather, [HttpGet (weather_request ?P ?k)])"
    by (simp add: fetch_weather_def Let_def http_const_def check_payload_dict paris_weather_def
          lit_def)
  from cache_ttl [where c = no_cache and ?c1' = "snd ?A" and ?c2' = "snd ?B" and ?http1.0 = ?h1
      and ?http2.0 = ?h2 and ?http3.0 = ?h2 and city = ?P and api_key = ?k, OF fresh t a refl b refl c]
  show ?thesis
    by (simp add: same f1 f3 prod_eq_iff)
qed


section \<open>Properties of the action block\<close>

lemma strip_Nil_iff: "strip s = [] \<longleftrightarrow> list_all is_space s"
proof -
  have "dropWhile is_space s = [] \<longleftrightarrow> (\<forall>x\<in>set (dropWhile is_space s). is_space x)"
  proof
    assume r: "\<forall>x\<in>set (dropWhile is_space s). is_space x"
    show "dropWhile is_space s = []"
    proof (rule ccontr)
      assume ne: "dropWhile is_space s \<noteq> []"
      then have "\<not> is_space (hd (dropWhile is_space s))" by (rule hd_dropWhile)
      moreover from ne have "hd (dropWhile is_space s) \<in> set (dropWhile is_space s)" by simp
      ultimately show False using r by blast
    qed
  next
    assume "dropWhile is_space s = []"
    then show "\<forall>x\<in>set (dropWhile is_space s). is_space x"
      by (simp only: set_simps ball_empty)
  qed
  then show ?thesis
    by (simp add: strip_def dropWhile_eq_Nil_conv list_all_iff)
qed

lemma action_blank_gemini:
  assumes "list_all is_space google_key"
  shows "action E now c True google_key weather_key city =
     (([StError (lit ''Please enter your Google Gemini API key.'')], Inl Stop), c)"
  using assms by (simp add: action_def strip_Nil_iff seq_def emit_def st_stop_def)

lemma action_blank_weather:
  assumes "\<not> list_all is_space google_key" and "list_all is_space weather_key"
  shows "action E now c True google_key weather_key city =
     (([StError (lit ''Please enter your WeatherAPI key.'')], Inl Stop), c)"
  using assms by (simp add: action_def strip_Nil_iff seq_def emit_def st_stop_def)

text \<open>
  Claim C10. When the button is pressed and a credential has only white space in it, the
  run does what it does for the empty credential: it shows the error message, for the
  Gemini key first, and stops. The message is the only event, so nothing was sent, and
  the cache is as it was.
\<close>

theorem blank_credential:
  assumes "list_all is_space google_key \<or> list_all is_space weather_key"
  shows "action E now c True google_key weather_key city =
       (([StError (if list_all is_space google_key
                   then lit ''Please enter your Google Gemini API key.''
                   else lit ''Please enter your WeatherAPI key.'')], Inl Stop), c)
     \<and> action E now c True google_key weather_key city =
         action E now c True (if list_all is_space google_key then [] else google_key)
           (if list_all is_space weather_key then [] else weather_key) city"
proof (cases "list_all is_space google_key")
  case True
  then show ?thesis
    using action_blank_gemini [of google_key E now c weather_key city]
      action_blank_gemini [of "[]" E now c
        "if list_all is_space weather_key then [] else weather_key" city]
    by simp
next
  case False
  with assms have w: "list_all is_space weather_key" by simp
  show ?thesis
    using action_blank_weather [OF False w, of E now c city]
      action_blank_weather [OF False, of "[]" E now c city] False w
    by simp
qed

text \<open>
  The theorem at a Gemini key of a space, a tab and an ideographic space, and at a
  weather key of a no-break space and a line feed.
\<close>

theorem blank_credential_witness:
  "action (sample_env (Inr paris_weather)) 1000 no_cache True [0x20, 0x9, 0x3000] (lit ''w'')
       (lit ''Paris'')
     = (([StError (lit ''Please enter your Google Gemini API key.'')], Inl Stop), no_cache)
   \<and> action (sample_env (Inr paris_weather)) 1000 no_cache True [0x20, 0x9, 0x3000] (lit ''w'')
       (lit ''Paris'')
     = action (sample_env (Inr paris_weather)) 1000 no_cache True [] (lit ''w'') (lit ''Paris'')
   \<and> action (sample_env (Inr paris_weather)) 1000 no_cache True (lit ''g'') [0xA0, 0xA]
       (lit ''Paris'')
     = (([StError (lit ''Please enter your WeatherAPI key.'')], Inl Stop), no_cache)
   \<and> action (sample_env (Inr paris_weather)) 1000 no_cache True (lit ''g'') [0xA0, 0xA]
       (lit ''Paris'')
     = action (sample_env (Inr paris_weather)) 1000 no_cache True (lit ''g'') [] (lit ''Paris'')"
proof -
  have g: "list_all is_space [0x20, 0x9, 0x3000]" "\<not> list_all is_space (lit ''g'')"
    by (simp_all add: is_space_def lit_def)
  have w: "list_all is_space [0xA0, 0xA]" "\<not> list_all is_space (lit ''w'')"
    by (simp_all add: is_space_def lit_def)
  let ?E = "sample_env (Inr paris_weather)"
  have a: "action ?E 1000 no_cache True [0x20, 0x9, 0x3000] (lit ''w'') (lit ''Paris'')
       = (([StError (lit ''Please enter your Google Gemini API key.'')], Inl Stop), no_cache)
     \<and> action ?E 1000 no_cache True [0x20, 0x9, 0x3000] (lit ''w'') (lit ''Paris'')
       = action ?E 1000 no_cache True [] (lit ''w'') (lit ''Paris'')"
    by (rule blank_credential [where google_key = "[0x20, 0x9, 0x3000]" and weather_key = "lit ''w''"
        and E = ?E and now = 1000 and c = no_cache and city = "lit ''Paris''", OF disjI1 [OF g(1)],
        unfolded if_P [OF g(1)] if_not_P [OF w(2)]])
  have b: "action ?E 1000 no_cache True (lit ''g'') [0xA0, 0xA] (lit ''Paris'')
       = (([StError (lit ''Please enter your WeatherAPI key.'')], Inl Stop), no_cache)
     \<and> action ?E 1000 no_cache True (lit ''g'') [0xA0, 0xA] (lit ''Paris'')
       = action ?E 1000 no_cache True (lit ''g'') [] (lit ''Paris'')"
    by (rule blank_credential [where google_key = "lit ''g''" and weather_key = "[0xA0, 0xA]"
        and E = ?E and now = 1000 and c = no_cache and city = "lit ''Paris''", OF disjI2 [OF w(1)],
        unfolded if_P [OF w(1)] if_not_P [OF g(2)]])
  from a b show ?thesis by blast
qed










section \<open>A complete run\<close>

text \<open>
  With both keys given and a complete report from the provider the script runs to its
  end: one request, the card, the four metrics, the details, the summary, the call of
  the model, the map and the raw data.
\<close>

lemma str_finite_1015: "str_finite 1015 0 = lit ''1015.0''"
  by code_simp

lemma report_parts:
  "getitem paris_report (lit ''current'') = Inr paris_cur"
  "getitem paris_report (lit ''location'') = Inr paris_loc"
  by (simp_all add: paris_report_def lit_def)

lemma report_card:
  "weather_card rp paris_cur paris_loc =
     Inr (StCard (lit ''//cdn.weatherapi.com/weather/64x64/day/113.png'') (lit ''Sunny'')
            (lit ''Paris'') (lit ''France'') (lit ''2024-06-01 12:00''))"
  unfolding weather_card_def paris_cur_def paris_loc_def
  by (simp add: andthen_def lit_def)

lemma report_temperature:
  "temperature_metric (sample_env a) paris_cur =
     Inr (StMetric (lit ''Temperature'') (lit ''22.5 '' @ degree_sign @ lit ''C'')
            (Some (lit ''Feels 21.0'')))"
  unfolding temperature_metric_def paris_cur_def
  by (simp add: andthen_def lit_def sample_env_def one_decimal_def)
     (simp add: str_finite_22_5 str_finite_21_0 lit_def)

lemma report_metrics:
  "humidity_metric rp paris_cur = Inr (StMetric (lit ''Humidity'') (lit ''40 %'') None)"
  "wind_metric rp paris_cur = Inr (StMetric (lit ''Wind'') (lit ''10 kph'') None)"
  "pressure_metric rp paris_cur = Inr (StMetric (lit ''Pressure'') (lit ''1015.0 mb'') None)"
  unfolding humidity_metric_def wind_metric_def pressure_metric_def paris_cur_def
  by (simp_all add: andthen_def lit_def, simp_all add: str_int_values str_finite_1015 lit_def)

lemma report_details:
  "weather_details rp paris_cur =
     Inr (StWrite (lit ''**Cloud**: '' @ em_dash @ lit ''%  |  **UV**: '' @ em_dash
            @ lit ''  |  **Visibility**: '' @ em_dash @ lit '' km  |  **Wind dir**: '' @ em_dash))"
  unfolding weather_details_def paris_cur_def
  by (simp add: andthen_def lit_def)

lemma report_progress:
  "humidity_progress (sample_env a) paris_cur = Inr (StProgress 40 (lit ''Humidity''))"
  unfolding humidity_progress_def paris_cur_def
  by (simp add: andthen_def lit_def sample_env_def whole_def)

lemma report_map:
  "city_map paris_loc =
     Inr (StMap (PDict [(lit ''lat'', PList [PFloat (Finite False 4887 (- 2))]),
                        (lit ''lon'', PList [PFloat (Finite False 233 (- 2))])]) 10)"
  unfolding city_map_def paris_loc_def
  by (simp add: andthen_def lit_def)

lemma report_summary: "build_weather_summary rp paris_report = Inr paris_sentence"
proof -
  have "build_weather_summary rp paris_report =
     Inr (lit ''Location: '' @ py_str rp (PStr (lit ''Paris'')) @ lit '', ''
          @ py_str rp (PStr (lit ''France''))
          @ lit ''. Condition: '' @ py_str rp (PStr (lit ''Sunny''))
          @ lit ''. Temp: '' @ py_str rp (PFloat (Finite False 225 (- 1))) @ degree_sign
          @ lit ''C (feels '' @ py_str rp (PFloat (Finite False 210 (- 1))) @ degree_sign
          @ lit ''C). Wind: '' @ py_str rp (PInt 10)
          @ lit '' kph. Humidity: '' @ py_str rp (PInt 40) @ lit ''%.'')"
    by (rule summary_template [where loc = paris_loc and cur = paris_cur
          and c = "PDict [(lit ''text'', PStr (lit ''Sunny'')),
                 (lit ''icon'', PStr (lit ''//cdn.weatherapi.com/weather/64x64/day/113.png''))]"])
       (simp_all add: paris_report_def paris_loc_def paris_cur_def lit_def)
  also have "\<dots> = Inr paris_sentence"
    by (simp add: str_finite_22_5 str_finite_21_0 str_int_values paris_sentence_def)
       (simp add: lit_def)
  finally show ?thesis .
qed

lemma report_attractions:
  "attractions_tab (sample_env a) (lit ''Paris'') (lit ''g'') paris_report =
     ([Summarize paris_report, NewClient (gemini_args (lit ''g'')),
       Invoke (prompt_text (lit ''Paris'') paris_sentence),
       StMarkdown (lit ''- **Louvre**: indoor-friendly today'')], Inr ())"
  by (simp add: attractions_tab_def report_summary seq_def emit_def compute_def
        get_attractions_md_def sample_env_def ready_client_def llm_const_def Let_def lit_def)

lemma report_render:
  "render (sample_env a) (lit ''Paris'') (lit ''g'') paris_report =
     ([StCard (lit ''//cdn.weatherapi.com/weather/64x64/day/113.png'') (lit ''Sunny'')
            (lit ''Paris'') (lit ''France'') (lit ''2024-06-01 12:00''),
       StMetric (lit ''Temperature'') (lit ''22.5 '' @ degree_sign @ lit ''C'')
            (Some (lit ''Feels 21.0'')),
       StMetric (lit ''Humidity'') (lit ''40 %'') None,
       StMetric (lit ''Wind'') (lit ''10 kph'') None,
       StMetric (lit ''Pressure'') (lit ''1015.0 mb'') None,
       StWrite (lit ''**Cloud**: '' @ em_dash @ lit ''%  |  **UV**: '' @ em_dash
            @ lit ''  |  **Visibility**: '' @ em_dash @ lit '' km  |  **Wind dir**: '' @ em_dash),
       StProgress 40 (lit ''Humidity''),
       Summarize paris_report, NewClient (gemini_args (lit ''g'')),
       Invoke (prompt_text (lit ''Paris'') paris_sentence),
       StMarkdown (lit ''- **Louvre**: indoor-friendly today''),
       StCaption (lit ''Approximate city location''),
       StMap (PDict [(lit ''lat'', PList [PFloat (Finite False 4887 (- 2))]),
                     (lit ''lon'', PList [PFloat (Finite False 233 (- 2))])]) 10,
       StJson paris_report,
       StSuccess (lit ''Done! Try another city.'')], Inr ())"
  unfolding render_def
  by (simp add: report_parts report_card report_temperature report_metrics report_details
        report_progress report_map report_attractions seq_def compute_def emit_def)

lemma report_check: "weather_check rp paris_report = ([], Inr ())"
  by (simp add: weather_check_def fetch_failed_def seq_def compute_def andthen_def
        paris_report_def lit_def)

lemma report_fetch:
  "fst (cached_fetch_weather (env_http (sample_env (Inr paris_report))) 1000 no_cache
          (lit ''Paris'') (lit ''w''))
     = (paris_report, [HttpGet (weather_request (lit ''Paris'') (lit ''w''))])"
  by (simp add: cached_fetch_weather_def get_or_fetch_def live_def no_cache_def sample_env_def
        fetch_weather_def Let_def http_const_def check_payload_dict paris_report_def lit_def)

lemma complete_run:
  "fst (action (sample_env (Inr paris_report)) 1000 no_cache True (lit ''g'') (lit ''w'')
          (lit ''Paris''))
     = (HttpGet (weather_request (lit ''Paris'') (lit ''w''))
          # fst (render (sample_env (Inr paris_report)) (lit ''Paris'') (lit ''g'') paris_report),
        Inr ())"
proof -
  have k: "strip (lit ''g'') \<noteq> []" "strip (lit ''w'') \<noteq> []"
    by (simp_all add: strip_Nil_iff is_space_def lit_def)
  obtain c' where
    "cached_fetch_weather (env_http (sample_env (Inr paris_report))) 1000 no_cache
        (lit ''Paris'') (lit ''w'')
      = ((paris_report, [HttpGet (weather_request (lit ''Paris'') (lit ''w''))]), c')"
    using report_fetch by (metis prod.collapse)
  then show ?thesis
    by (simp add: action_def k report_check report_render seq_def)
qed


end
